theory Spec2Isabelle
  imports Main
begin

section \<open>The command-line front end of the release-engineering tool\<close>

text \<open>
  This theory embeds the \<^verbatim>\<open>main\<close> methods of the sub-commands declared in
  \<^verbatim>\<open>releng/metaborg/releng/cmd.py\<close>. Each \<^verbatim>\<open>main\<close> is a short script: it
  prints, it may ask the user for confirmation, it calls functions imported from other
  modules (\<^verbatim>\<open>metaborg.util.git\<close>, \<^verbatim>\<open>metaborg.util.prompt\<close>,
  \<^verbatim>\<open>metaborg.releng.build\<close>, ...) and it returns an exit code.

  The imported functions are not part of the file. They are parameters of the model (the
  record \<open>world\<close> below): every one of them transforms an outside state \<open>'s\<close> (file
  system, git repositories, terminal input) and either returns a value or raises.
  A command is a function on a log of observable events paired with that outside state.
\<close>

subsection \<open>Data\<close>

text \<open>A \<^verbatim>\<open>git.Repo\<close> handle; the only attribute the commands read is its working tree.\<close>

record repo =
  working_tree_dir :: string

text \<open>\<^verbatim>\<open>metaborg.util.git.RemoteType\<close>.\<close>

datatype RemoteType = SSH | HTTP

text \<open>
  Python exceptions. \<open>RuntimeError msg\<close> carries \<^verbatim>\<open>str(detail)\<close>; \<open>UnboundLocalError\<close>
  is what reading a local variable that was never assigned raises; \<open>OtherError\<close> stands
  for every exception class that is not a \<^verbatim>\<open>RuntimeError\<close>.
\<close>

datatype exn = RuntimeError string | UnboundLocalError string | OtherError string

text \<open>
  The object \<^verbatim>\<open>RelengBuilder(repo, buildDeps=...)\<close> returns, with the attributes that
  \<^verbatim>\<open>MetaborgRelengBuild.main\<close> reads (\<open>targets\<close>) and assigns (all others).
\<close>

record builder =
  targets :: "string list"
  copyArtifactsTo :: "string option"
  clean :: bool
  deploy :: bool
  release :: bool
  skipTests :: bool
  skipExpensive :: bool
  offline :: bool
  debug :: bool
  quiet :: bool
  qualifier :: "string option"
  generateJavaDoc :: bool
  buildStratego :: bool
  bootstrapStratego :: bool
  testStratego :: bool
  mavenSettingsFile :: "string option"
  mavenGlobalSettingsFile :: "string option"
  mavenCleanLocalRepo :: bool
  mavenLocalRepo :: "string option"
  mavenOpts :: string
  gradleNoNative :: bool

text \<open>
  The switches of the \<^verbatim>\<open>build\<close> sub-command (the attributes of \<^verbatim>\<open>self\<close>).
  \<open>nowQualifier\<close> is a flag whose default is \<^verbatim>\<open>None\<close>: it is \<^verbatim>\<open>None\<close> or
  \<^verbatim>\<open>True\<close>, and only its truth value is read, so it is a \<open>bool\<close> here.
\<close>

record MetaborgRelengBuild =
  buildStratego :: bool
  bootstrapStratego :: bool
  noStrategoTest :: bool
  qualifier :: "string option"
  nowQualifier :: bool
  cleanRepo :: bool
  noDeps :: bool
  deploy :: bool
  release :: bool
  skipExpensive :: bool
  copyArtifacts :: "string option"
  generateJavaDoc :: bool
  noClean :: bool
  skipTests :: bool
  settings :: "string option"
  globalSettings :: "string option"
  localRepo :: "string option"
  offline :: bool
  debug :: bool
  quiet :: bool
  noNative :: bool
  stack :: string
  minHeap :: string
  maxHeap :: string

text \<open>
  What a run does that can be observed from outside, in order: a line printed, or a call
  of an imported function with its arguments.
\<close>

datatype event =
    is_Print: Print string
  | Call_YesNo
  | Call_YesNoTwice
  | Call_YesNoTrice
  | Call_UpdateAll repo "int option"
  | Call_SetRemoteAll repo RemoteType
  | Call_CheckoutAll repo
  | Call_ResetAll repo bool
  | Call_CleanAll repo
  | Call_SetVersions repo string string bool bool bool
  | Call_Release repo string string string string string
  | Call_RelengBuilder repo bool
  | Call_create_now_qualifier repo
  | Call_build builder "string list"
  | Call_repo_changed repo string

subsection \<open>Effects\<close>

text \<open>
  A computation takes the log so far and the outside state, and gives back either an
  exception (\<open>Inl\<close>) or a value (\<open>Inr\<close>), with the extended log and the new outside state.
\<close>

type_synonym ('s, 'a) io = "event list \<times> 's \<Rightarrow> (exn + 'a) \<times> (event list \<times> 's)"

definition ret :: "'a \<Rightarrow> ('s, 'a) io" where
  "ret x = (\<lambda>\<sigma>. (Inr x, \<sigma>))"

definition raise :: "exn \<Rightarrow> ('s, 'a) io" where
  "raise e = (\<lambda>\<sigma>. (Inl e, \<sigma>))"

text \<open>Sequencing: an exception of the first part skips the rest.\<close>

definition bind :: "('s, 'a) io \<Rightarrow> ('a \<Rightarrow> ('s, 'b) io) \<Rightarrow> ('s, 'b) io" where
  "bind m f = (\<lambda>\<sigma>. case fst (m \<sigma>) of
                      Inl e \<Rightarrow> (Inl e, snd (m \<sigma>))
                    | Inr x \<Rightarrow> f x (snd (m \<sigma>)))"

text \<open>\<^verbatim>\<open>print(msg)\<close>: the line goes to the log, the outside state is untouched.\<close>

definition print :: "string \<Rightarrow> ('s, unit) io" where
  "print msg = (\<lambda>(tr, s). (Inr (), (tr @ [Print msg], s)))"

text \<open>A call of an imported function \<open>f\<close>: it is logged as \<open>ev\<close> and runs on the outside state.\<close>

definition call :: "event \<Rightarrow> ('s \<Rightarrow> (exn + 'a) \<times> 's) \<Rightarrow> ('s, 'a) io" where
  "call ev f = (\<lambda>(tr, s). (fst (f s), (tr @ [ev], snd (f s))))"

text \<open>\<^verbatim>\<open>try: m  except RuntimeError as detail: h(detail)\<close>; other exceptions pass.\<close>

definition except_RuntimeError :: "('s, 'a) io \<Rightarrow> (string \<Rightarrow> ('s, 'a) io) \<Rightarrow> ('s, 'a) io" where
  "except_RuntimeError m h = (\<lambda>\<sigma>. case fst (m \<sigma>) of
                                     Inl (RuntimeError detail) \<Rightarrow> h detail (snd (m \<sigma>))
                                   | Inl (UnboundLocalError n) \<Rightarrow> m \<sigma>
                                   | Inl (OtherError n) \<Rightarrow> m \<sigma>
                                   | Inr x \<Rightarrow> m \<sigma>)"

text \<open>One invocation of a command, from an empty log.\<close>

definition run :: "('s, 'a) io \<Rightarrow> 's \<Rightarrow> (exn + 'a) \<times> (event list \<times> 's)" where
  "run m s = m ([], s)"

definition outcome :: "(exn + 'a) \<times> (event list \<times> 's) \<Rightarrow> exn + 'a" where
  "outcome r = fst r"

definition trace :: "(exn + 'a) \<times> (event list \<times> 's) \<Rightarrow> event list" where
  "trace r = fst (snd r)"

definition outside :: "(exn + 'a) \<times> (event list \<times> 's) \<Rightarrow> 's" where
  "outside r = snd (snd r)"

text \<open>The imported functions a run called, in order, and the lines it printed.\<close>

definition calls :: "event list \<Rightarrow> event list" where
  "calls tr = filter (\<lambda>e. \<not> is_Print e) tr"

fun printed :: "event list \<Rightarrow> string list" where
  "printed [] = []"
| "printed (Print msg # tr) = msg # printed tr"
| "printed (e # tr) = printed tr"

fun is_prompt :: "event \<Rightarrow> bool" where
  "is_prompt Call_YesNo = True"
| "is_prompt Call_YesNoTwice = True"
| "is_prompt Call_YesNoTrice = True"
| "is_prompt e = False"

subsection \<open>The imported functions\<close>

text \<open>
  The functions \<^verbatim>\<open>cmd.py\<close> imports and the commands modelled here call. Each is a
  parameter: given its arguments and the outside state it returns or raises, and leaves
  a new outside state. \<open>CommonPrefix\<close> (\<^verbatim>\<open>metaborg.util.path\<close>) is a function of its
  argument alone, and \<open>scriptDir\<close> is the value of
  \<^verbatim>\<open>path.dirname(path.realpath(__file__))\<close>.
\<close>

record 's world =
  YesNo :: "'s \<Rightarrow> (exn + bool) \<times> 's"
  YesNoTwice :: "'s \<Rightarrow> (exn + bool) \<times> 's"
  YesNoTrice :: "'s \<Rightarrow> (exn + bool) \<times> 's"
  UpdateAll :: "repo \<Rightarrow> int option \<Rightarrow> 's \<Rightarrow> (exn + unit) \<times> 's"
  SetRemoteAll :: "repo \<Rightarrow> RemoteType \<Rightarrow> 's \<Rightarrow> (exn + unit) \<times> 's"
  CheckoutAll :: "repo \<Rightarrow> 's \<Rightarrow> (exn + unit) \<times> 's"
  ResetAll :: "repo \<Rightarrow> bool \<Rightarrow> 's \<Rightarrow> (exn + unit) \<times> 's"
  CleanAll :: "repo \<Rightarrow> 's \<Rightarrow> (exn + unit) \<times> 's"
  SetVersions :: "repo \<Rightarrow> string \<Rightarrow> string \<Rightarrow> bool \<Rightarrow> bool \<Rightarrow> bool \<Rightarrow> 's \<Rightarrow> (exn + unit) \<times> 's"
  Release :: "repo \<Rightarrow> string \<Rightarrow> string \<Rightarrow> string \<Rightarrow> string \<Rightarrow> string \<Rightarrow> 's \<Rightarrow> (exn + unit) \<times> 's"
  RelengBuilder :: "repo \<Rightarrow> bool \<Rightarrow> 's \<Rightarrow> (exn + builder) \<times> 's"
  create_now_qualifier :: "repo \<Rightarrow> 's \<Rightarrow> (exn + string) \<times> 's"
  build :: "builder \<Rightarrow> string list \<Rightarrow> 's \<Rightarrow> (exn + unit) \<times> 's"
  repo_changed :: "repo \<Rightarrow> string \<Rightarrow> 's \<Rightarrow> (exn + bool \<times> string) \<times> 's"
  CommonPrefix :: "string list \<Rightarrow> string"
  scriptDir :: string

subsection \<open>Python helpers\<close>

text \<open>\<^verbatim>\<open>sep.join(xs)\<close>.\<close>

fun join :: "string \<Rightarrow> string list \<Rightarrow> string" where
  "join sep [] = []"
| "join sep [x] = x"
| "join sep (x # y # ys) = x @ sep @ join sep (y # ys)"

text \<open>
  The truth value of an optional string, as \<^verbatim>\<open>if self.qualifier:\<close> tests it:
  \<^verbatim>\<open>None\<close> and the empty string are false.
\<close>

fun truthy :: "string option \<Rightarrow> bool" where
  "truthy None = False"
| "truthy (Some s) = (s \<noteq> [])"

subsection \<open>set-remote\<close>

definition MetaborgRelengSetRemote_main :: "'s world \<Rightarrow> repo \<Rightarrow> bool \<Rightarrow> bool \<Rightarrow> ('s, int) io" where
  "MetaborgRelengSetRemote_main w parent_repo toSsh toHttp =
     (if \<not> toSsh \<and> \<not> toHttp then
        bind (print ''Must choose between SSH (-s) or HTTP (-h)'') (\<lambda>_. ret 1)
      else
        bind (if toSsh then ret SSH
              else if toHttp then ret HTTP
              else raise (UnboundLocalError ''toType'')) (\<lambda>toType.
        bind (print ''Setting remotes for all submodules'') (\<lambda>_.
        bind (call (Call_SetRemoteAll parent_repo toType) (SetRemoteAll w parent_repo toType)) (\<lambda>_.
        ret 0))))"

subsection \<open>clean-update\<close>

definition MetaborgRelengCleanUpdate_main ::
    "'s world \<Rightarrow> repo \<Rightarrow> bool \<Rightarrow> int option \<Rightarrow> ('s, int) io" where
  "MetaborgRelengCleanUpdate_main w parent_repo confirmPrompt depth =
     (let rest =
        bind (print ''Resetting, cleaning, and updating all submodules'') (\<lambda>_.
        bind (call (Call_CheckoutAll parent_repo) (CheckoutAll w parent_repo)) (\<lambda>_.
        bind (call (Call_ResetAll parent_repo True) (ResetAll w parent_repo True)) (\<lambda>_.
        bind (call (Call_CheckoutAll parent_repo) (CheckoutAll w parent_repo)) (\<lambda>_.
        bind (call (Call_CleanAll parent_repo) (CleanAll w parent_repo)) (\<lambda>_.
        bind (call (Call_UpdateAll parent_repo depth) (UpdateAll w parent_repo depth)) (\<lambda>_.
        ret 0))))))
      in
        if \<not> confirmPrompt then
          bind (print (''WARNING: This will DELETE UNCOMMITED CHANGES, DELETE UNPUSHED COMMITS, and DELETE UNTRACKED FILES. Do you '' @
                       ''want to continue?'')) (\<lambda>_.
          bind (call Call_YesNoTrice (YesNoTrice w)) (\<lambda>answer.
          if \<not> answer then ret 1 else rest))
        else rest)"

subsection \<open>clean\<close>

definition MetaborgRelengClean_main :: "'s world \<Rightarrow> repo \<Rightarrow> bool \<Rightarrow> ('s, int) io" where
  "MetaborgRelengClean_main w parent_repo confirmPrompt =
     (let rest =
        bind (call (Call_CleanAll parent_repo) (CleanAll w parent_repo)) (\<lambda>_. ret 0)
      in
        bind (print ''Cleaning all submodules'') (\<lambda>_.
        if \<not> confirmPrompt then
          bind (print ''WARNING: This will DELETE UNTRACKED FILES, do you want to continue?'') (\<lambda>_.
          bind (call Call_YesNoTwice (YesNoTwice w)) (\<lambda>answer.
          if \<not> answer then ret 1 else rest))
        else rest))"

subsection \<open>reset\<close>

definition MetaborgRelengReset_main :: "'s world \<Rightarrow> repo \<Rightarrow> bool \<Rightarrow> bool \<Rightarrow> ('s, int) io" where
  "MetaborgRelengReset_main w parent_repo confirmPrompt toRemote =
     (let rest =
        bind (call (Call_ResetAll parent_repo toRemote) (ResetAll w parent_repo toRemote)) (\<lambda>_. ret 0)
      in
        bind (print ''Resetting all submodules'') (\<lambda>_.
        if toRemote then
          (if \<not> confirmPrompt then
             bind (print ''WARNING: This will DELETE UNCOMMITED CHANGES and DELETE UNPUSHED COMMITS, do you want to continue?'') (\<lambda>_.
             bind (call Call_YesNoTrice (YesNoTrice w)) (\<lambda>answer.
             if \<not> answer then ret 1 else rest))
           else rest)
        else
          (if \<not> confirmPrompt then
             bind (print ''WARNING: This will DELETE UNCOMMITED CHANGES, do you want to continue?'') (\<lambda>_.
             bind (call Call_YesNoTwice (YesNoTwice w)) (\<lambda>answer.
             if \<not> answer then ret 1 else rest))
           else rest)))"

subsection \<open>set-versions\<close>

definition MetaborgRelengSetVersions_main ::
    "'s world \<Rightarrow> repo \<Rightarrow> string \<Rightarrow> string \<Rightarrow> bool \<Rightarrow> bool \<Rightarrow> bool \<Rightarrow> ('s, int) io" where
  "MetaborgRelengSetVersions_main w parent_repo fromVersion toVersion commit dryRun confirmPrompt =
     (let rest =
        bind (call (Call_SetVersions parent_repo fromVersion toVersion True dryRun commit)
                (SetVersions w parent_repo fromVersion toVersion True dryRun commit)) (\<lambda>_. ret 0)
      in
        if confirmPrompt \<and> \<not> dryRun then
          (if commit then
             bind (print ''WARNING: This will CHANGE and COMMIT pom.xml, MANIFEST.MF, and feature.xml files, do you want to continue?'') (\<lambda>_.
             rest)
           else
             bind (print ''WARNING: This will CHANGE pom.xml, MANIFEST.MF, and feature.xml files, do you want to continue?'') (\<lambda>_.
             bind (call Call_YesNo (YesNo w)) (\<lambda>answer.
             if \<not> answer then ret 1 else rest)))
        else rest)"

subsection \<open>build\<close>

text \<open>
  The choice of the qualifier (the \<^verbatim>\<open>if self.qualifier: ... elif self.nowQualifier: ...
  else: ...\<close> block of \<^verbatim>\<open>MetaborgRelengBuild.main\<close>).
\<close>

definition choose_qualifier ::
    "'s world \<Rightarrow> repo \<Rightarrow> MetaborgRelengBuild \<Rightarrow> ('s, string option) io" where
  "choose_qualifier w parent_repo self =
     (if truthy (qualifier self) then ret (qualifier self)
      else if nowQualifier self then
        bind (call (Call_create_now_qualifier parent_repo) (create_now_qualifier w parent_repo))
          (\<lambda>q. ret (Some q))
      else ret None)"

definition MetaborgRelengBuild_main ::
    "'s world \<Rightarrow> repo \<Rightarrow> MetaborgRelengBuild \<Rightarrow> string list \<Rightarrow> ('s, int) io" where
  "MetaborgRelengBuild_main w parent_repo self components =
     bind (call (Call_RelengBuilder parent_repo (\<not> noDeps self))
             (RelengBuilder w parent_repo (\<not> noDeps self))) (\<lambda>builder0.
     if length components = 0 then
       bind (print ''No components specified, pass one or more of the following components to build:'') (\<lambda>_.
       bind (print (join '', '' (targets builder0))) (\<lambda>_.
       ret 1))
     else
       let builder1 = builder0
             \<lparr> copyArtifactsTo := copyArtifacts self,
               clean := \<not> noClean self,
               builder.deploy := deploy self,
               builder.release := release self,
               builder.skipTests := skipTests self,
               builder.skipExpensive := skipExpensive self,
               builder.offline := offline self,
               builder.debug := debug self,
               builder.quiet := quiet self \<rparr>
       in
       bind (choose_qualifier w parent_repo self) (\<lambda>qualifier'.
       let builder2 = builder1
             \<lparr> builder.qualifier := qualifier',
               builder.generateJavaDoc := generateJavaDoc self,
               builder.buildStratego := buildStratego self,
               builder.bootstrapStratego := bootstrapStratego self,
               testStratego := \<not> noStrategoTest self,
               mavenSettingsFile := settings self,
               mavenGlobalSettingsFile := globalSettings self,
               mavenCleanLocalRepo := cleanRepo self,
               mavenLocalRepo := localRepo self,
               mavenOpts := ''-Xss'' @ stack self @ '' -Xms'' @ minHeap self @ '' -Xmx'' @ maxHeap self,
               gradleNoNative := noNative self \<rparr>
       in
       except_RuntimeError
         (bind (call (Call_build builder2 components) (build w builder2 components)) (\<lambda>_. ret 0))
         (\<lambda>detail. bind (print detail) (\<lambda>_. ret 1))))"

text \<open>
  The builder as \<^verbatim>\<open>main\<close> has configured it when it calls \<^verbatim>\<open>builder.build\<close>: all
  attribute assignments of \<^verbatim>\<open>main\<close> applied to the constructed builder \<open>b\<close>, with
  \<open>q\<close> the qualifier chosen. (A name for use in statements; \<open>build_call_configured\<close>
  below shows that it is the builder \<open>MetaborgRelengBuild_main\<close> passes.)
\<close>

definition configured :: "MetaborgRelengBuild \<Rightarrow> string option \<Rightarrow> builder \<Rightarrow> builder" where
  "configured self q b = b
     \<lparr> copyArtifactsTo := copyArtifacts self,
       clean := \<not> noClean self,
       builder.deploy := deploy self,
       builder.release := release self,
       builder.skipTests := skipTests self,
       builder.skipExpensive := skipExpensive self,
       builder.offline := offline self,
       builder.debug := debug self,
       builder.quiet := quiet self,
       builder.qualifier := q,
       builder.generateJavaDoc := generateJavaDoc self,
       builder.buildStratego := buildStratego self,
       builder.bootstrapStratego := bootstrapStratego self,
       testStratego := \<not> noStrategoTest self,
       mavenSettingsFile := settings self,
       mavenGlobalSettingsFile := globalSettings self,
       mavenCleanLocalRepo := cleanRepo self,
       mavenLocalRepo := localRepo self,
       mavenOpts := ''-Xss'' @ stack self @ '' -Xms'' @ minHeap self @ '' -Xmx'' @ maxHeap self,
       gradleNoNative := noNative self \<rparr>"

text \<open>The \<open>qualifier\<close> attribute of every builder a run passed to \<^verbatim>\<open>build\<close>.\<close>

fun handed_qualifiers :: "event list \<Rightarrow> string option list" where
  "handed_qualifiers [] = []"
| "handed_qualifiers (Call_build b cs # tr) = builder.qualifier b # handed_qualifiers tr"
| "handed_qualifiers (e # tr) = handed_qualifiers tr"

subsection \<open>release\<close>

definition MetaborgRelengRelease_main ::
    "'s world \<Rightarrow> repo \<Rightarrow> string \<Rightarrow> string \<Rightarrow> string \<Rightarrow> string \<Rightarrow> string \<Rightarrow> ('s, int) io" where
  "MetaborgRelengRelease_main w parent_repo releaseBranch developBranch curDevelopVersion
       nextReleaseVersion nextDevelopVersion =
     bind (print ''Performing interactive release'') (\<lambda>_.
     let repoDir = working_tree_dir parent_repo in
     if CommonPrefix w [repoDir, scriptDir w] = repoDir then
       bind (print (''Cannot perform release on the same repository this script is contained in, please set another repository '' @
                    ''using the -r/--repo switch.'')) (\<lambda>_.
       ret 1)
     else
       bind (call (Call_Release parent_repo releaseBranch developBranch curDevelopVersion
                     nextReleaseVersion nextDevelopVersion)
               (Release w parent_repo releaseBranch developBranch curDevelopVersion
                     nextReleaseVersion nextDevelopVersion)) (\<lambda>_.
       ret 0))"

subsection \<open>changed\<close>

definition MetaborgRelengChanged_main :: "'s world \<Rightarrow> repo \<Rightarrow> string \<Rightarrow> bool \<Rightarrow> ('s, int) io" where
  "MetaborgRelengChanged_main w parent_repo destination forceChange =
     bind (call (Call_repo_changed parent_repo destination) (repo_changed w parent_repo destination))
       (\<lambda>(changed, qualifier').
     if forceChange \<or> changed then
       bind (print qualifier') (\<lambda>_. ret 0)
     else ret 1)"

subsection \<open>An instance of the imported functions\<close>

text \<open>
  A concrete instance, used to evaluate the commands at concrete inputs. The outside state
  is the content of the files the instance writes (path to content). The prompts give the
  answer \<open>answer\<close>; the fleet operations, the version rewriter, the release workflow and
  the builder return without touching a file; \<open>repo_changed\<close> compares the file at the
  destination with the current qualifier \<open>example_qualifier\<close> and overwrites it when
  they differ; \<open>CommonPrefix\<close> is the longest common prefix of the given strings.
\<close>

definition example_repo :: repo where
  "example_repo = \<lparr> working_tree_dir = ''/work/spoofax-releng'' \<rparr>"

definition example_builder :: builder where
  "example_builder =
     \<lparr> targets = [''java'', ''language'', ''eclipse''],
       copyArtifactsTo = None, clean = True, deploy = False, release = False,
       skipTests = False, skipExpensive = False, offline = False, debug = False,
       quiet = False, qualifier = None, generateJavaDoc = False, buildStratego = False,
       bootstrapStratego = False, testStratego = True, mavenSettingsFile = None,
       mavenGlobalSettingsFile = None, mavenCleanLocalRepo = False, mavenLocalRepo = None,
       mavenOpts = [], gradleNoNative = False \<rparr>"

text \<open>The switches of \<^verbatim>\<open>build\<close> when none is given on the command line.\<close>

definition default_switches :: MetaborgRelengBuild where
  "default_switches =
     \<lparr> buildStratego = False, bootstrapStratego = False, noStrategoTest = False,
       qualifier = None, nowQualifier = False, cleanRepo = False, noDeps = False,
       deploy = False, release = False, skipExpensive = False, copyArtifacts = None,
       generateJavaDoc = False, noClean = False, skipTests = False, settings = None,
       globalSettings = None, localRepo = None, offline = False, debug = False,
       quiet = False, noNative = False, stack = ''16M'', minHeap = ''512M'',
       maxHeap = ''1024M'' \<rparr>"

definition example_qualifier :: string where
  "example_qualifier = ''master-20230103-101500''"

fun common_prefix2 :: "string \<Rightarrow> string \<Rightarrow> string" where
  "common_prefix2 (x # xs) (y # ys) = (if x = y then x # common_prefix2 xs ys else [])"
| "common_prefix2 xs ys = []"

fun example_CommonPrefix :: "string list \<Rightarrow> string" where
  "example_CommonPrefix [] = []"
| "example_CommonPrefix [x] = x"
| "example_CommonPrefix (x # y # ys) = common_prefix2 x (example_CommonPrefix (y # ys))"

definition example_repo_changed ::
    "repo \<Rightarrow> string \<Rightarrow> (string \<rightharpoonup> string) \<Rightarrow> (exn + bool \<times> string) \<times> (string \<rightharpoonup> string)" where
  "example_repo_changed r destination files =
     (if files destination = Some example_qualifier
      then (Inr (False, example_qualifier), files)
      else (Inr (True, example_qualifier), files(destination \<mapsto> example_qualifier)))"

definition example_world :: "bool \<Rightarrow> (string \<rightharpoonup> string) world" where
  "example_world answer =
     \<lparr> YesNo = (\<lambda>s. (Inr answer, s)),
       YesNoTwice = (\<lambda>s. (Inr answer, s)),
       YesNoTrice = (\<lambda>s. (Inr answer, s)),
       UpdateAll = (\<lambda>r depth s. (Inr (), s)),
       SetRemoteAll = (\<lambda>r toType s. (Inr (), s)),
       CheckoutAll = (\<lambda>r s. (Inr (), s)),
       ResetAll = (\<lambda>r toRemote s. (Inr (), s)),
       CleanAll = (\<lambda>r s. (Inr (), s)),
       SetVersions = (\<lambda>r fromVersion toVersion a dryRun commit s. (Inr (), s)),
       Release = (\<lambda>r rb db cdv nrv ndv s. (Inr (), s)),
       RelengBuilder = (\<lambda>r buildDeps s. (Inr example_builder, s)),
       create_now_qualifier = (\<lambda>r s. (Inr ''master-20230104-093000'', s)),
       build = (\<lambda>b cs s. (Inr (), s)),
       repo_changed = example_repo_changed,
       CommonPrefix = example_CommonPrefix,
       scriptDir = ''/opt/spoofax-deploy/releng/metaborg/releng'' \<rparr>"

text \<open>The same instance with a build backend that fails with the diagnostic \<open>msg\<close>.\<close>

definition failing_build_world :: "string \<Rightarrow> (string \<rightharpoonup> string) world" where
  "failing_build_world msg =
     (example_world True) \<lparr> build := (\<lambda>b cs s. (Inl (RuntimeError msg), s)) \<rparr>"

text \<open>
  The instance again, with operations that leave marks in the files, so that the outside
  state shows whether an operation ran: SetRemoteAll records the kind of remote, CleanAll
  removes the untracked file \<^verbatim>\<open>notes.txt\<close>, ResetAll records the commit reset to, and
  Release records the released version.
\<close>

definition example_files :: "string \<rightharpoonup> string" where
  "example_files = [''notes.txt'' \<mapsto> ''draft'']"

definition acting_world :: "bool \<Rightarrow> (string \<rightharpoonup> string) world" where
  "acting_world answer =
     (example_world answer)
       \<lparr> SetRemoteAll :=
           (\<lambda>r toType s. (Inr (), s(''remote'' \<mapsto> (case toType of SSH \<Rightarrow> ''ssh'' | HTTP \<Rightarrow> ''http'')))),
         CleanAll := (\<lambda>r s. (Inr (), s(''notes.txt'' := None))),
         ResetAll :=
           (\<lambda>r toRemote s. (Inr (), s(''HEAD'' \<mapsto> (if toRemote then ''origin/master'' else ''master'')))),
         Release := (\<lambda>r rb db cdv nrv ndv s. (Inr (), s(''released'' \<mapsto> nrv))) \<rparr>"

section \<open>Properties of the commands\<close>

subsection \<open>Running the effects\<close>

lemma ret_apply: "ret x \<sigma> = (Inr x, \<sigma>)"
  by (simp add: ret_def)

lemma bind_ret: "bind (ret x) f = f x"
  by (simp add: bind_def ret_def)

lemma bind_raise: "bind (raise e) f \<sigma> = (Inl e, \<sigma>)"
  by (simp add: bind_def raise_def)

lemma bind_print: "bind (print msg) f (tr, s) = f () (tr @ [Print msg], s)"
  by (simp add: bind_def print_def)

lemma bind_call:
  "bind (call ev g) f (tr, s) =
     (case fst (g s) of
        Inl e \<Rightarrow> (Inl e, (tr @ [ev], snd (g s)))
      | Inr x \<Rightarrow> f x (tr @ [ev], snd (g s)))"
  by (simp add: bind_def call_def split: sum.splits)

lemmas io_simps = ret_apply bind_ret bind_raise bind_print bind_call run_def outcome_def
  trace_def outside_def calls_def

subsection \<open>set-remote\<close>

lemma SetRemote_neither:
  "\<not> toSsh \<Longrightarrow> \<not> toHttp \<Longrightarrow>
   run (MetaborgRelengSetRemote_main w r toSsh toHttp) s =
     (Inr 1, ([Print ''Must choose between SSH (-s) or HTTP (-h)''], s))"
  by (simp add: MetaborgRelengSetRemote_main_def io_simps)

lemma SetRemote_chosen:
  "toSsh \<or> toHttp \<Longrightarrow>
   run (MetaborgRelengSetRemote_main w r toSsh toHttp) s =
     (case fst (SetRemoteAll w r (if toSsh then SSH else HTTP) s) of
        Inl e \<Rightarrow> Inl e | Inr u \<Rightarrow> Inr 0,
      ([Print ''Setting remotes for all submodules'',
        Call_SetRemoteAll r (if toSsh then SSH else HTTP)],
       snd (SetRemoteAll w r (if toSsh then SSH else HTTP) s)))"
  by (auto simp add: MetaborgRelengSetRemote_main_def io_simps split: sum.splits)

text \<open>
  C8. set-remote: with neither \<^verbatim>\<open>--ssh\<close> nor \<^verbatim>\<open>--http\<close> the command prints an error and
  returns 1; SetRemoteAll is never called and the outside state is untouched. With
  \<^verbatim>\<open>--ssh\<close> it calls SetRemoteAll with \<open>SSH\<close>, with \<^verbatim>\<open>--http\<close> it calls SetRemoteAll
  with \<open>HTTP\<close>: that is the only call, the outside state is the one SetRemoteAll leaves,
  and the command returns 0 when SetRemoteAll returns and passes its exception on when
  it raises. (The two flags exclude each other in their declarations, so \<^verbatim>\<open>--http\<close>
  is \<open>toHttp\<close> without \<open>toSsh\<close>.)
\<close>

theorem set_remote_by_flag:
  "let R = run (MetaborgRelengSetRemote_main w r toSsh toHttp) s in
   (\<not> toSsh \<and> \<not> toHttp \<longrightarrow>
      outcome R = Inr 1 \<and>
      printed (trace R) = [''Must choose between SSH (-s) or HTTP (-h)''] \<and>
      calls (trace R) = [] \<and> outside R = s) \<and>
   (toSsh \<longrightarrow>
      calls (trace R) = [Call_SetRemoteAll r SSH] \<and>
      outside R = snd (SetRemoteAll w r SSH s) \<and>
      outcome R = (case fst (SetRemoteAll w r SSH s) of Inl e \<Rightarrow> Inl e | Inr u \<Rightarrow> Inr 0)) \<and>
   (toHttp \<and> \<not> toSsh \<longrightarrow>
      calls (trace R) = [Call_SetRemoteAll r HTTP] \<and>
      outside R = snd (SetRemoteAll w r HTTP s) \<and>
      outcome R = (case fst (SetRemoteAll w r HTTP s) of Inl e \<Rightarrow> Inl e | Inr u \<Rightarrow> Inr 0)) \<and>
   (toSsh \<and> fst (SetRemoteAll w r SSH s) = Inr () \<longrightarrow> outcome R = Inr 0) \<and>
   (toHttp \<and> \<not> toSsh \<and> fst (SetRemoteAll w r HTTP s) = Inr () \<longrightarrow> outcome R = Inr 0)"
proof -
  define R where "R = run (MetaborgRelengSetRemote_main w r toSsh toHttp) s"
  have neither: "\<not> toSsh \<and> \<not> toHttp \<longrightarrow>
      outcome R = Inr 1 \<and>
      printed (trace R) = [''Must choose between SSH (-s) or HTTP (-h)''] \<and>
      calls (trace R) = [] \<and> outside R = s"
    by (simp add: R_def SetRemote_neither outcome_def trace_def outside_def calls_def)
  have ssh: "toSsh \<longrightarrow>
      calls (trace R) = [Call_SetRemoteAll r SSH] \<and>
      outside R = snd (SetRemoteAll w r SSH s) \<and>
      outcome R = (case fst (SetRemoteAll w r SSH s) of Inl e \<Rightarrow> Inl e | Inr u \<Rightarrow> Inr 0)"
    by (simp add: R_def SetRemote_chosen trace_def calls_def outside_def outcome_def)
  have http: "toHttp \<and> \<not> toSsh \<longrightarrow>
      calls (trace R) = [Call_SetRemoteAll r HTTP] \<and>
      outside R = snd (SetRemoteAll w r HTTP s) \<and>
      outcome R = (case fst (SetRemoteAll w r HTTP s) of Inl e \<Rightarrow> Inl e | Inr u \<Rightarrow> Inr 0)"
    by (simp add: R_def SetRemote_chosen trace_def calls_def outside_def outcome_def)
  have ssh0: "toSsh \<and> fst (SetRemoteAll w r SSH s) = Inr () \<longrightarrow> outcome R = Inr 0"
    by (simp add: R_def SetRemote_chosen outcome_def)
  have http0: "toHttp \<and> \<not> toSsh \<and> fst (SetRemoteAll w r HTTP s) = Inr () \<longrightarrow> outcome R = Inr 0"
    by (simp add: R_def SetRemote_chosen outcome_def)
  from neither ssh http ssh0 http0 show ?thesis
    unfolding Let_def R_def by blast
qed

theorem set_remote_by_flag_witness:
  "outcome (run (MetaborgRelengSetRemote_main (acting_world True) example_repo False False) example_files) = Inr 1 \<and>
   calls (trace (run (MetaborgRelengSetRemote_main (acting_world True) example_repo False False) example_files)) = [] \<and>
   outside (run (MetaborgRelengSetRemote_main (acting_world True) example_repo False False) example_files) ''remote'' = None \<and>
   calls (trace (run (MetaborgRelengSetRemote_main (acting_world True) example_repo True False) example_files)) =
     [Call_SetRemoteAll example_repo SSH] \<and>
   fst (SetRemoteAll (acting_world True) example_repo SSH example_files) = Inr () \<and>
   outcome (run (MetaborgRelengSetRemote_main (acting_world True) example_repo True False) example_files) = Inr 0 \<and>
   outside (run (MetaborgRelengSetRemote_main (acting_world True) example_repo True False) example_files) ''remote'' =
     Some ''ssh'' \<and>
   calls (trace (run (MetaborgRelengSetRemote_main (acting_world True) example_repo False True) example_files)) =
     [Call_SetRemoteAll example_repo HTTP] \<and>
   fst (SetRemoteAll (acting_world True) example_repo HTTP example_files) = Inr () \<and>
   outcome (run (MetaborgRelengSetRemote_main (acting_world True) example_repo False True) example_files) = Inr 0 \<and>
   outside (run (MetaborgRelengSetRemote_main (acting_world True) example_repo False True) example_files) ''remote'' =
     Some ''http''"
proof -
  have ok: "fst (SetRemoteAll (acting_world True) example_repo t example_files) = Inr ()" for t
    by (simp add: acting_world_def)
  have left: "snd (SetRemoteAll (acting_world True) example_repo t example_files) ''remote'' =
      Some (case t of SSH \<Rightarrow> ''ssh'' | HTTP \<Rightarrow> ''http'')" for t
    by (simp add: acting_world_def)
  have before: "example_files ''remote'' = None"
    by (simp add: example_files_def)
  show ?thesis
    using set_remote_by_flag [where toSsh = False and toHttp = False
        and w = "acting_world True" and r = example_repo and s = example_files]
      set_remote_by_flag [where toSsh = True and toHttp = False
        and w = "acting_world True" and r = example_repo and s = example_files]
      set_remote_by_flag [where toSsh = False and toHttp = True
        and w = "acting_world True" and r = example_repo and s = example_files]
      ok left [of SSH] left [of HTTP] before
    by (simp add: Let_def)
qed

subsection \<open>clean-update\<close>

text \<open>
  C9. clean-update, past its confirmation gate (\<^verbatim>\<open>-y\<close> given, or YesNoTrice answered
  yes): the command calls, in this order and nothing else, CheckoutAll, ResetAll with
  \<open>toRemote = True\<close>, CheckoutAll, CleanAll and UpdateAll with the given depth, and
  returns 0. Each operation is taken to return: an exception of one of them leaves
  \<^verbatim>\<open>main\<close> at that call, as in Python. \<open>s0\<close> to \<open>s4\<close> are the outside states in
  which the five operations start.
\<close>

theorem clean_update_sequence:
  assumes gate: "confirmPrompt \<or> fst (YesNoTrice w s) = Inr True"
    and "s0 = (if confirmPrompt then s else snd (YesNoTrice w s))"
    and "fst (CheckoutAll w r s0) = Inr ()"
    and "s1 = snd (CheckoutAll w r s0)"
    and "fst (ResetAll w r True s1) = Inr ()"
    and "s2 = snd (ResetAll w r True s1)"
    and "fst (CheckoutAll w r s2) = Inr ()"
    and "s3 = snd (CheckoutAll w r s2)"
    and "fst (CleanAll w r s3) = Inr ()"
    and "s4 = snd (CleanAll w r s3)"
    and "fst (UpdateAll w r depth s4) = Inr ()"
  shows "let R = run (MetaborgRelengCleanUpdate_main w r confirmPrompt depth) s in
         calls (trace R) =
           (if confirmPrompt then [] else [Call_YesNoTrice]) @
           [Call_CheckoutAll r, Call_ResetAll r True, Call_CheckoutAll r, Call_CleanAll r,
            Call_UpdateAll r depth] \<and>
         outcome R = Inr 0 \<and>
         outside R = snd (UpdateAll w r depth s4)"
proof (cases confirmPrompt)
  case True
  with assms(2) have s0: "s0 = s" by simp
  show ?thesis
    using True assms(3-11) unfolding s0
    by (simp add: MetaborgRelengCleanUpdate_main_def Let_def io_simps)
next
  case False
  with gate have yes: "fst (YesNoTrice w s) = Inr True" by simp
  from False assms(2) have s0: "s0 = snd (YesNoTrice w s)" by simp
  show ?thesis
    using False yes assms(3-11) unfolding s0
    by (simp add: MetaborgRelengCleanUpdate_main_def Let_def io_simps)
qed

theorem clean_update_sequence_witness:
  "calls (trace (run (MetaborgRelengCleanUpdate_main (example_world True) example_repo False (Some 1)) Map.empty)) =
     [Call_YesNoTrice, Call_CheckoutAll example_repo, Call_ResetAll example_repo True,
      Call_CheckoutAll example_repo, Call_CleanAll example_repo,
      Call_UpdateAll example_repo (Some 1)] \<and>
   outcome (run (MetaborgRelengCleanUpdate_main (example_world True) example_repo False (Some 1)) Map.empty) = Inr 0 \<and>
   calls (trace (run (MetaborgRelengCleanUpdate_main (example_world False) example_repo True None) Map.empty)) =
     [Call_CheckoutAll example_repo, Call_ResetAll example_repo True,
      Call_CheckoutAll example_repo, Call_CleanAll example_repo,
      Call_UpdateAll example_repo None] \<and>
   outcome (run (MetaborgRelengCleanUpdate_main (example_world False) example_repo True None) Map.empty) = Inr 0"
proof -
  have a: "let R = run (MetaborgRelengCleanUpdate_main (example_world True) example_repo False (Some 1)) Map.empty in
         calls (trace R) =
           (if False then [] else [Call_YesNoTrice]) @
           [Call_CheckoutAll example_repo, Call_ResetAll example_repo True,
            Call_CheckoutAll example_repo, Call_CleanAll example_repo,
            Call_UpdateAll example_repo (Some 1)] \<and>
         outcome R = Inr 0 \<and>
         outside R = snd (UpdateAll (example_world True) example_repo (Some 1) Map.empty)"
    by (rule clean_update_sequence [where ?s0.0 = Map.empty and ?s1.0 = Map.empty
          and ?s2.0 = Map.empty and ?s3.0 = Map.empty])
      (simp_all add: example_world_def)
  have b: "let R = run (MetaborgRelengCleanUpdate_main (example_world False) example_repo True None) Map.empty in
         calls (trace R) =
           (if True then [] else [Call_YesNoTrice]) @
           [Call_CheckoutAll example_repo, Call_ResetAll example_repo True,
            Call_CheckoutAll example_repo, Call_CleanAll example_repo,
            Call_UpdateAll example_repo None] \<and>
         outcome R = Inr 0 \<and>
         outside R = snd (UpdateAll (example_world False) example_repo None Map.empty)"
    by (rule clean_update_sequence [where ?s0.0 = Map.empty and ?s1.0 = Map.empty
          and ?s2.0 = Map.empty and ?s3.0 = Map.empty])
      (simp_all add: example_world_def)
  from a b show ?thesis by (simp add: Let_def)
qed

subsection \<open>clean and reset\<close>

lemma Clean_asked:
  "\<not> confirmPrompt \<Longrightarrow>
   run (MetaborgRelengClean_main w r confirmPrompt) s =
     (if fst (YesNoTwice w s) = Inr True then
        ((case fst (CleanAll w r (snd (YesNoTwice w s))) of Inl e \<Rightarrow> Inl e | Inr u \<Rightarrow> Inr 0),
         ([Print ''Cleaning all submodules'',
           Print ''WARNING: This will DELETE UNTRACKED FILES, do you want to continue?'',
           Call_YesNoTwice, Call_CleanAll r],
          snd (CleanAll w r (snd (YesNoTwice w s)))))
      else
        ((case fst (YesNoTwice w s) of Inl e \<Rightarrow> Inl e | Inr answer \<Rightarrow> Inr 1),
         ([Print ''Cleaning all submodules'',
           Print ''WARNING: This will DELETE UNTRACKED FILES, do you want to continue?'',
           Call_YesNoTwice],
          snd (YesNoTwice w s))))"
  by (simp add: MetaborgRelengClean_main_def Let_def io_simps split: sum.splits)

lemma Clean_yes:
  "confirmPrompt \<Longrightarrow>
   run (MetaborgRelengClean_main w r confirmPrompt) s =
     ((case fst (CleanAll w r s) of Inl e \<Rightarrow> Inl e | Inr u \<Rightarrow> Inr 0),
      ([Print ''Cleaning all submodules'', Call_CleanAll r], snd (CleanAll w r s)))"
  by (simp add: MetaborgRelengClean_main_def Let_def io_simps split: sum.splits)

lemma Reset_asked:
  "\<not> confirmPrompt \<Longrightarrow>
   run (MetaborgRelengReset_main w r confirmPrompt toRemote) s =
     (if fst ((if toRemote then YesNoTrice w else YesNoTwice w) s) = Inr True then
        ((case fst (ResetAll w r toRemote (snd ((if toRemote then YesNoTrice w else YesNoTwice w) s))) of
            Inl e \<Rightarrow> Inl e | Inr u \<Rightarrow> Inr 0),
         ([Print ''Resetting all submodules'',
           Print (if toRemote
                  then ''WARNING: This will DELETE UNCOMMITED CHANGES and DELETE UNPUSHED COMMITS, do you want to continue?''
                  else ''WARNING: This will DELETE UNCOMMITED CHANGES, do you want to continue?''),
           (if toRemote then Call_YesNoTrice else Call_YesNoTwice), Call_ResetAll r toRemote],
          snd (ResetAll w r toRemote (snd ((if toRemote then YesNoTrice w else YesNoTwice w) s)))))
      else
        ((case fst ((if toRemote then YesNoTrice w else YesNoTwice w) s) of
            Inl e \<Rightarrow> Inl e | Inr answer \<Rightarrow> Inr 1),
         ([Print ''Resetting all submodules'',
           Print (if toRemote
                  then ''WARNING: This will DELETE UNCOMMITED CHANGES and DELETE UNPUSHED COMMITS, do you want to continue?''
                  else ''WARNING: This will DELETE UNCOMMITED CHANGES, do you want to continue?''),
           (if toRemote then Call_YesNoTrice else Call_YesNoTwice)],
          snd ((if toRemote then YesNoTrice w else YesNoTwice w) s))))"
  by (simp add: MetaborgRelengReset_main_def Let_def io_simps split: sum.splits)

lemma Reset_yes:
  "confirmPrompt \<Longrightarrow>
   run (MetaborgRelengReset_main w r confirmPrompt toRemote) s =
     ((case fst (ResetAll w r toRemote s) of Inl e \<Rightarrow> Inl e | Inr u \<Rightarrow> Inr 0),
      ([Print ''Resetting all submodules'', Call_ResetAll r toRemote],
       snd (ResetAll w r toRemote s)))"
  by (simp add: MetaborgRelengReset_main_def Let_def io_simps split: sum.splits)

text \<open>
  C4. clean and reset without \<^verbatim>\<open>-y\<close>: the destructive operation (CleanAll, or ResetAll
  with either value of \<open>toRemote\<close>) is called only after the confirmation prompt
  (YesNoTwice for clean and for a local reset, YesNoTrice for a reset to the remote) has
  been answered yes, and then it runs on the state the prompt leaves. A negative answer
  gives exit code 1; the operation is not called, and the outside state is the one the
  prompt leaves (so it is with any result of the prompt other than yes). With \<^verbatim>\<open>-y\<close> no
  prompt is called and the operation is called in any case, on the initial state. Where
  the operation is called, the command returns 0 when it returns and passes its exception
  on when it raises.
\<close>

theorem clean_reset_confirmation:
  "let C = run (MetaborgRelengClean_main w r confirmPrompt) s;
       R = run (MetaborgRelengReset_main w r confirmPrompt toRemote) s;
       ask = (if toRemote then YesNoTrice w else YesNoTwice w);
       asked = (if toRemote then Call_YesNoTrice else Call_YesNoTwice)
   in
   (\<not> confirmPrompt \<and> fst (YesNoTwice w s) = Inr False \<longrightarrow>
      outcome C = Inr 1 \<and> calls (trace C) = [Call_YesNoTwice] \<and>
      outside C = snd (YesNoTwice w s)) \<and>
   (\<not> confirmPrompt \<and> fst (YesNoTwice w s) = Inr True \<longrightarrow>
      calls (trace C) = [Call_YesNoTwice, Call_CleanAll r] \<and>
      outside C = snd (CleanAll w r (snd (YesNoTwice w s))) \<and>
      outcome C =
        (case fst (CleanAll w r (snd (YesNoTwice w s))) of Inl e \<Rightarrow> Inl e | Inr u \<Rightarrow> Inr 0)) \<and>
   (\<not> confirmPrompt \<and> Call_CleanAll r \<in> set (trace C) \<longrightarrow>
      fst (YesNoTwice w s) = Inr True) \<and>
   (\<not> confirmPrompt \<and> fst (YesNoTwice w s) \<noteq> Inr True \<longrightarrow>
      calls (trace C) = [Call_YesNoTwice] \<and> outside C = snd (YesNoTwice w s)) \<and>
   (confirmPrompt \<longrightarrow>
      calls (trace C) = [Call_CleanAll r] \<and>
      outside C = snd (CleanAll w r s) \<and>
      outcome C = (case fst (CleanAll w r s) of Inl e \<Rightarrow> Inl e | Inr u \<Rightarrow> Inr 0)) \<and>
   (\<not> confirmPrompt \<and> fst (ask s) = Inr False \<longrightarrow>
      outcome R = Inr 1 \<and> calls (trace R) = [asked] \<and> outside R = snd (ask s)) \<and>
   (\<not> confirmPrompt \<and> fst (ask s) = Inr True \<longrightarrow>
      calls (trace R) = [asked, Call_ResetAll r toRemote] \<and>
      outside R = snd (ResetAll w r toRemote (snd (ask s))) \<and>
      outcome R =
        (case fst (ResetAll w r toRemote (snd (ask s))) of Inl e \<Rightarrow> Inl e | Inr u \<Rightarrow> Inr 0)) \<and>
   (\<not> confirmPrompt \<and> Call_ResetAll r toRemote \<in> set (trace R) \<longrightarrow>
      fst (ask s) = Inr True) \<and>
   (\<not> confirmPrompt \<and> fst (ask s) \<noteq> Inr True \<longrightarrow>
      calls (trace R) = [asked] \<and> outside R = snd (ask s)) \<and>
   (confirmPrompt \<longrightarrow>
      calls (trace R) = [Call_ResetAll r toRemote] \<and>
      outside R = snd (ResetAll w r toRemote s) \<and>
      outcome R = (case fst (ResetAll w r toRemote s) of Inl e \<Rightarrow> Inl e | Inr u \<Rightarrow> Inr 0))"
proof -
  define C where "C = run (MetaborgRelengClean_main w r confirmPrompt) s"
  define R where "R = run (MetaborgRelengReset_main w r confirmPrompt toRemote) s"
  define ask where "ask = (if toRemote then YesNoTrice w else YesNoTwice w)"
  define asked where "asked = (if toRemote then Call_YesNoTrice else Call_YesNoTwice)"
  have c1: "\<not> confirmPrompt \<and> fst (YesNoTwice w s) = Inr False \<longrightarrow>
      outcome C = Inr 1 \<and> calls (trace C) = [Call_YesNoTwice] \<and>
      outside C = snd (YesNoTwice w s)"
    by (simp add: C_def Clean_asked outcome_def trace_def calls_def outside_def)
  have c2: "\<not> confirmPrompt \<and> fst (YesNoTwice w s) = Inr True \<longrightarrow>
      calls (trace C) = [Call_YesNoTwice, Call_CleanAll r] \<and>
      outside C = snd (CleanAll w r (snd (YesNoTwice w s))) \<and>
      outcome C =
        (case fst (CleanAll w r (snd (YesNoTwice w s))) of Inl e \<Rightarrow> Inl e | Inr u \<Rightarrow> Inr 0)"
    by (simp add: C_def Clean_asked outcome_def trace_def calls_def outside_def)
  have c3: "\<not> confirmPrompt \<and> Call_CleanAll r \<in> set (trace C) \<longrightarrow>
      fst (YesNoTwice w s) = Inr True"
    by (auto simp add: C_def Clean_asked trace_def split: if_splits)
  have c4: "\<not> confirmPrompt \<and> fst (YesNoTwice w s) \<noteq> Inr True \<longrightarrow>
      calls (trace C) = [Call_YesNoTwice] \<and> outside C = snd (YesNoTwice w s)"
    by (simp add: C_def Clean_asked trace_def calls_def outside_def)
  have c5: "confirmPrompt \<longrightarrow>
      calls (trace C) = [Call_CleanAll r] \<and>
      outside C = snd (CleanAll w r s) \<and>
      outcome C = (case fst (CleanAll w r s) of Inl e \<Rightarrow> Inl e | Inr u \<Rightarrow> Inr 0)"
    by (simp add: C_def Clean_yes outcome_def trace_def calls_def outside_def)
  have r1: "\<not> confirmPrompt \<and> fst (ask s) = Inr False \<longrightarrow>
      outcome R = Inr 1 \<and> calls (trace R) = [asked] \<and> outside R = snd (ask s)"
    by (simp add: R_def ask_def asked_def Reset_asked outcome_def trace_def calls_def outside_def)
  have r2: "\<not> confirmPrompt \<and> fst (ask s) = Inr True \<longrightarrow>
      calls (trace R) = [asked, Call_ResetAll r toRemote] \<and>
      outside R = snd (ResetAll w r toRemote (snd (ask s))) \<and>
      outcome R =
        (case fst (ResetAll w r toRemote (snd (ask s))) of Inl e \<Rightarrow> Inl e | Inr u \<Rightarrow> Inr 0)"
    by (simp add: R_def ask_def asked_def Reset_asked outcome_def trace_def calls_def outside_def)
  have r3: "\<not> confirmPrompt \<and> Call_ResetAll r toRemote \<in> set (trace R) \<longrightarrow>
      fst (ask s) = Inr True"
    by (auto simp add: R_def ask_def Reset_asked trace_def split: if_splits)
  have r4: "\<not> confirmPrompt \<and> fst (ask s) \<noteq> Inr True \<longrightarrow>
      calls (trace R) = [asked] \<and> outside R = snd (ask s)"
    by (simp add: R_def ask_def asked_def Reset_asked trace_def calls_def outside_def)
  have r5: "confirmPrompt \<longrightarrow>
      calls (trace R) = [Call_ResetAll r toRemote] \<and>
      outside R = snd (ResetAll w r toRemote s) \<and>
      outcome R = (case fst (ResetAll w r toRemote s) of Inl e \<Rightarrow> Inl e | Inr u \<Rightarrow> Inr 0)"
    by (simp add: R_def Reset_yes outcome_def trace_def calls_def outside_def)
  from c1 c2 c3 c4 c5 r1 r2 r3 r4 r5 show ?thesis
    unfolding Let_def C_def R_def ask_def asked_def by (intro conjI)
qed

theorem clean_reset_confirmation_witness:
  "fst (YesNoTwice (acting_world False) example_files) = Inr False \<and>
   outcome (run (MetaborgRelengClean_main (acting_world False) example_repo False) example_files) = Inr 1 \<and>
   calls (trace (run (MetaborgRelengClean_main (acting_world False) example_repo False) example_files)) =
     [Call_YesNoTwice] \<and>
   outside (run (MetaborgRelengClean_main (acting_world False) example_repo False) example_files)
     ''notes.txt'' = Some ''draft'' \<and>
   fst (YesNoTrice (acting_world False) example_files) = Inr False \<and>
   outcome (run (MetaborgRelengReset_main (acting_world False) example_repo False True) example_files) = Inr 1 \<and>
   calls (trace (run (MetaborgRelengReset_main (acting_world False) example_repo False True) example_files)) =
     [Call_YesNoTrice] \<and>
   outside (run (MetaborgRelengReset_main (acting_world False) example_repo False True) example_files)
     ''HEAD'' = None \<and>
   fst (YesNoTwice (acting_world True) example_files) = Inr True \<and>
   Call_CleanAll example_repo \<in>
     set (trace (run (MetaborgRelengClean_main (acting_world True) example_repo False) example_files)) \<and>
   calls (trace (run (MetaborgRelengClean_main (acting_world True) example_repo False) example_files)) =
     [Call_YesNoTwice, Call_CleanAll example_repo] \<and>
   outcome (run (MetaborgRelengClean_main (acting_world True) example_repo False) example_files) = Inr 0 \<and>
   outside (run (MetaborgRelengClean_main (acting_world True) example_repo False) example_files)
     ''notes.txt'' = None \<and>
   Call_ResetAll example_repo False \<in>
     set (trace (run (MetaborgRelengReset_main (acting_world True) example_repo False False) example_files)) \<and>
   calls (trace (run (MetaborgRelengReset_main (acting_world True) example_repo False False) example_files)) =
     [Call_YesNoTwice, Call_ResetAll example_repo False] \<and>
   outside (run (MetaborgRelengReset_main (acting_world True) example_repo False False) example_files)
     ''HEAD'' = Some ''master'' \<and>
   calls (trace (run (MetaborgRelengClean_main (acting_world False) example_repo True) example_files)) =
     [Call_CleanAll example_repo] \<and>
   outside (run (MetaborgRelengClean_main (acting_world False) example_repo True) example_files)
     ''notes.txt'' = None \<and>
   calls (trace (run (MetaborgRelengReset_main (acting_world False) example_repo True True) example_files)) =
     [Call_ResetAll example_repo True] \<and>
   outside (run (MetaborgRelengReset_main (acting_world False) example_repo True True) example_files)
     ''HEAD'' = Some ''origin/master''"
proof -
  have prompts: "YesNoTwice (acting_world a) s = (Inr a, s)" "YesNoTrice (acting_world a) s = (Inr a, s)"
    for a s
    by (simp_all add: acting_world_def example_world_def)
  have operations: "CleanAll (acting_world a) r s = (Inr (), s(''notes.txt'' := None))"
      "ResetAll (acting_world a) r b s =
         (Inr (), s(''HEAD'' \<mapsto> (if b then ''origin/master'' else ''master'')))"
    for a r b s
    by (simp_all add: acting_world_def)
  have clean_called: "Call_CleanAll example_repo \<in>
     set (trace (run (MetaborgRelengClean_main (acting_world True) example_repo False) example_files))"
    by (simp add: MetaborgRelengClean_main_def Let_def io_simps prompts operations)
  have reset_called: "Call_ResetAll example_repo False \<in>
     set (trace (run (MetaborgRelengReset_main (acting_world True) example_repo False False) example_files))"
    by (simp add: MetaborgRelengReset_main_def Let_def io_simps prompts operations)
  show ?thesis
    using clean_called reset_called
      clean_reset_confirmation [where confirmPrompt = False and toRemote = True
        and w = "acting_world False" and r = example_repo and s = example_files]
      clean_reset_confirmation [where confirmPrompt = False and toRemote = False
        and w = "acting_world True" and r = example_repo and s = example_files]
      clean_reset_confirmation [where confirmPrompt = True and toRemote = True
        and w = "acting_world False" and r = example_repo and s = example_files]
    by (simp add: Let_def prompts operations example_files_def)
qed

subsection \<open>release\<close>

text \<open>
  C3. release: when the common prefix of the repository's working tree and the directory
  of the tool's own script is the working tree itself (the script lies inside the target
  repository), the command prints an error and returns 1; Release is not called and the
  outside state is untouched. Otherwise Release is called with the five branch and
  version parameters: that is the only call, the outside state is the one Release
  leaves, and the command returns 0 when Release returns and passes its exception on
  when it raises.
\<close>

theorem release_same_repository_guard:
  "let R = run (MetaborgRelengRelease_main w r releaseBranch developBranch curDevelopVersion
                  nextReleaseVersion nextDevelopVersion) s;
       repoDir = working_tree_dir r
   in
   (CommonPrefix w [repoDir, scriptDir w] = repoDir \<longrightarrow>
      outcome R = Inr 1 \<and>
      printed (trace R) =
        [''Performing interactive release'',
         ''Cannot perform release on the same repository this script is contained in, please set another repository using the -r/--repo switch.''] \<and>
      calls (trace R) = [] \<and> outside R = s) \<and>
   (CommonPrefix w [repoDir, scriptDir w] \<noteq> repoDir \<longrightarrow>
      calls (trace R) =
        [Call_Release r releaseBranch developBranch curDevelopVersion nextReleaseVersion
           nextDevelopVersion] \<and>
      outside R =
        snd (Release w r releaseBranch developBranch curDevelopVersion nextReleaseVersion
               nextDevelopVersion s) \<and>
      outcome R =
        (case fst (Release w r releaseBranch developBranch curDevelopVersion nextReleaseVersion
                     nextDevelopVersion s) of
           Inl e \<Rightarrow> Inl e | Inr u \<Rightarrow> Inr 0)) \<and>
   (CommonPrefix w [repoDir, scriptDir w] \<noteq> repoDir \<and>
    fst (Release w r releaseBranch developBranch curDevelopVersion nextReleaseVersion
           nextDevelopVersion s) = Inr () \<longrightarrow>
      outcome R = Inr 0)"
  by (simp add: MetaborgRelengRelease_main_def Let_def io_simps split: sum.splits)

theorem release_same_repository_guard_witness:
  "CommonPrefix (acting_world True)
     [''/opt/spoofax-deploy'', scriptDir (acting_world True)] = ''/opt/spoofax-deploy'' \<and>
   outcome (run (MetaborgRelengRelease_main (acting_world True)
       \<lparr>working_tree_dir = ''/opt/spoofax-deploy''\<rparr>
       ''master'' ''develop'' ''2.5.0-SNAPSHOT'' ''2.5.0'' ''2.6.0-SNAPSHOT'') example_files) = Inr 1 \<and>
   calls (trace (run (MetaborgRelengRelease_main (acting_world True)
       \<lparr>working_tree_dir = ''/opt/spoofax-deploy''\<rparr>
       ''master'' ''develop'' ''2.5.0-SNAPSHOT'' ''2.5.0'' ''2.6.0-SNAPSHOT'') example_files)) = [] \<and>
   outside (run (MetaborgRelengRelease_main (acting_world True)
       \<lparr>working_tree_dir = ''/opt/spoofax-deploy''\<rparr>
       ''master'' ''develop'' ''2.5.0-SNAPSHOT'' ''2.5.0'' ''2.6.0-SNAPSHOT'') example_files)
     ''released'' = None \<and>
   CommonPrefix (acting_world True)
     [working_tree_dir example_repo, scriptDir (acting_world True)] \<noteq>
     working_tree_dir example_repo \<and>
   fst (Release (acting_world True) example_repo
       ''master'' ''develop'' ''2.5.0-SNAPSHOT'' ''2.5.0'' ''2.6.0-SNAPSHOT'' example_files) = Inr () \<and>
   calls (trace (run (MetaborgRelengRelease_main (acting_world True) example_repo
       ''master'' ''develop'' ''2.5.0-SNAPSHOT'' ''2.5.0'' ''2.6.0-SNAPSHOT'') example_files)) =
     [Call_Release example_repo ''master'' ''develop'' ''2.5.0-SNAPSHOT'' ''2.5.0''
        ''2.6.0-SNAPSHOT''] \<and>
   outcome (run (MetaborgRelengRelease_main (acting_world True) example_repo
       ''master'' ''develop'' ''2.5.0-SNAPSHOT'' ''2.5.0'' ''2.6.0-SNAPSHOT'') example_files) = Inr 0 \<and>
   outside (run (MetaborgRelengRelease_main (acting_world True) example_repo
       ''master'' ''develop'' ''2.5.0-SNAPSHOT'' ''2.5.0'' ''2.6.0-SNAPSHOT'') example_files)
     ''released'' = Some ''2.5.0''"
proof -
  have inside: "CommonPrefix (acting_world True)
     [''/opt/spoofax-deploy'', scriptDir (acting_world True)] = ''/opt/spoofax-deploy''"
    by (simp add: acting_world_def example_world_def)
  have elsewhere: "CommonPrefix (acting_world True)
     [working_tree_dir example_repo, scriptDir (acting_world True)] \<noteq>
     working_tree_dir example_repo"
    by (simp add: acting_world_def example_world_def example_repo_def)
  have returns: "fst (Release (acting_world True) example_repo
       ''master'' ''develop'' ''2.5.0-SNAPSHOT'' ''2.5.0'' ''2.6.0-SNAPSHOT'' example_files) = Inr ()"
    by (simp add: acting_world_def)
  have left: "snd (Release (acting_world True) example_repo
       ''master'' ''develop'' ''2.5.0-SNAPSHOT'' ''2.5.0'' ''2.6.0-SNAPSHOT'' example_files)
       ''released'' = Some ''2.5.0''"
    by (simp add: acting_world_def)
  have before: "example_files ''released'' = None"
    by (simp add: example_files_def)
  show ?thesis
    using inside elsewhere returns left before
      release_same_repository_guard [where w = "acting_world True"
        and r = "\<lparr>working_tree_dir = ''/opt/spoofax-deploy''\<rparr>"
        and releaseBranch = "''master''" and developBranch = "''develop''"
        and curDevelopVersion = "''2.5.0-SNAPSHOT''" and nextReleaseVersion = "''2.5.0''"
        and nextDevelopVersion = "''2.6.0-SNAPSHOT''" and s = example_files]
      release_same_repository_guard [where w = "acting_world True"
        and r = example_repo
        and releaseBranch = "''master''" and developBranch = "''develop''"
        and curDevelopVersion = "''2.5.0-SNAPSHOT''" and nextReleaseVersion = "''2.5.0''"
        and nextDevelopVersion = "''2.6.0-SNAPSHOT''" and s = example_files]
    by (simp add: Let_def)
qed

subsection \<open>set-versions\<close>

lemma SetVersions_without_yes:
  "\<not> confirmPrompt \<Longrightarrow>
   calls (trace (run (MetaborgRelengSetVersions_main w r fromVersion toVersion commit dryRun
                        confirmPrompt) s)) =
     [Call_SetVersions r fromVersion toVersion True dryRun commit] \<and>
   printed (trace (run (MetaborgRelengSetVersions_main w r fromVersion toVersion commit dryRun
                          confirmPrompt) s)) = []"
  by (simp add: MetaborgRelengSetVersions_main_def Let_def io_simps split: sum.splits)

lemma SetVersions_with_yes:
  "confirmPrompt \<Longrightarrow> \<not> dryRun \<Longrightarrow> \<not> commit \<Longrightarrow> fst (YesNo w s) = Inr False \<Longrightarrow>
   run (MetaborgRelengSetVersions_main w r fromVersion toVersion commit dryRun confirmPrompt) s =
     (Inr 1,
      ([Print ''WARNING: This will CHANGE pom.xml, MANIFEST.MF, and feature.xml files, do you want to continue?'',
        Call_YesNo], snd (YesNo w s)))"
  by (simp add: MetaborgRelengSetVersions_main_def Let_def io_simps)

text \<open>
  C1. set-versions: the claim is that without \<^verbatim>\<open>-y\<close> and without \<^verbatim>\<open>--dryrun\<close> the
  user is asked before any file is modified, and that \<^verbatim>\<open>-y\<close> skips the prompt. The
  code tests \<^verbatim>\<open>self.confirmPrompt and not self.dryRun\<close>, the flag not negated. Evaluated:
  without \<^verbatim>\<open>-y\<close> (and a user who would answer no) nothing is printed, no prompt is
  called, SetVersions is called and the exit code is 0; with \<^verbatim>\<open>-y\<close> the prompt is
  called, and the negative answer stops the command with exit code 1 before SetVersions.
\<close>

theorem set_versions_prompt_inverted:
  "run (MetaborgRelengSetVersions_main (example_world False) example_repo
          ''2.5.0-SNAPSHOT'' ''2.5.0'' False False False) Map.empty =
     (Inr 0,
      ([Call_SetVersions example_repo ''2.5.0-SNAPSHOT'' ''2.5.0'' True False False],
       Map.empty)) \<and>
   run (MetaborgRelengSetVersions_main (example_world False) example_repo
          ''2.5.0-SNAPSHOT'' ''2.5.0'' False False True) Map.empty =
     (Inr 1,
      ([Print ''WARNING: This will CHANGE pom.xml, MANIFEST.MF, and feature.xml files, do you want to continue?'',
        Call_YesNo],
       Map.empty))"
  by (simp add: MetaborgRelengSetVersions_main_def Let_def io_simps example_world_def)

subsection \<open>changed\<close>

lemma Changed_run:
  "fst (repo_changed w r destination s) = Inr (changed, q) \<Longrightarrow>
   run (MetaborgRelengChanged_main w r destination forceChange) s =
     (if forceChange \<or> changed
      then (Inr 0, ([Call_repo_changed r destination, Print q],
                    snd (repo_changed w r destination s)))
      else (Inr 1, ([Call_repo_changed r destination], snd (repo_changed w r destination s))))"
  by (simp add: MetaborgRelengChanged_main_def io_simps)

lemma Changed_raises:
  "fst (repo_changed w r destination s) = Inl e \<Longrightarrow>
   run (MetaborgRelengChanged_main w r destination forceChange) s =
     (Inl e, ([Call_repo_changed r destination], snd (repo_changed w r destination s)))"
  by (simp add: MetaborgRelengChanged_main_def io_simps)

text \<open>
  C2, as the code has it. changed, when repo_changed returns \<open>(changed, q)\<close>: if
  \<^verbatim>\<open>--force-change\<close> is set or \<open>changed\<close> holds, the qualifier \<open>q\<close> is printed and the
  exit code is 0; otherwise nothing is printed and the exit code is 1. In both cases
  repo_changed is the only function called: exit code 1 is the answer "not changed since
  the last invocation", given with no prompt, no message and no failed call.
\<close>

theorem changed_exit_code:
  assumes "fst (repo_changed w r destination s) = Inr (changed, q)"
  shows "let R = run (MetaborgRelengChanged_main w r destination forceChange) s in
         outcome R = Inr (if forceChange \<or> changed then 0 else 1) \<and>
         printed (trace R) = (if forceChange \<or> changed then [q] else []) \<and>
         calls (trace R) = [Call_repo_changed r destination]"
  using assms by (simp add: Changed_run Let_def outcome_def trace_def calls_def)

theorem changed_exit_code_witness:
  "fst (repo_changed (example_world True) example_repo ''.qualifier'' Map.empty) =
     Inr (True, example_qualifier) \<and>
   outcome (run (MetaborgRelengChanged_main (example_world True) example_repo ''.qualifier'' False)
              Map.empty) = Inr 0 \<and>
   printed (trace (run (MetaborgRelengChanged_main (example_world True) example_repo ''.qualifier'' False)
              Map.empty)) = [example_qualifier] \<and>
   fst (repo_changed (example_world True) example_repo ''.qualifier''
          [''.qualifier'' \<mapsto> example_qualifier]) = Inr (False, example_qualifier) \<and>
   outcome (run (MetaborgRelengChanged_main (example_world True) example_repo ''.qualifier'' True)
              [''.qualifier'' \<mapsto> example_qualifier]) = Inr 0 \<and>
   printed (trace (run (MetaborgRelengChanged_main (example_world True) example_repo ''.qualifier'' True)
              [''.qualifier'' \<mapsto> example_qualifier])) = [example_qualifier] \<and>
   outcome (run (MetaborgRelengChanged_main (example_world True) example_repo ''.qualifier'' False)
              [''.qualifier'' \<mapsto> example_qualifier]) = Inr 1 \<and>
   printed (trace (run (MetaborgRelengChanged_main (example_world True) example_repo ''.qualifier'' False)
              [''.qualifier'' \<mapsto> example_qualifier])) = []"
proof -
  have absent: "fst (repo_changed (example_world True) example_repo ''.qualifier'' Map.empty) =
     Inr (True, example_qualifier)"
    by (simp add: example_world_def example_repo_changed_def)
  have same: "fst (repo_changed (example_world True) example_repo ''.qualifier''
          [''.qualifier'' \<mapsto> example_qualifier]) = Inr (False, example_qualifier)"
    by (simp add: example_world_def example_repo_changed_def)
  show ?thesis
    using absent same
      changed_exit_code [OF absent, of False]
      changed_exit_code [OF same, of True]
      changed_exit_code [OF same, of False]
    by (simp add: Let_def)
qed

text \<open>
  C2, as stated, fails: the claim reserves exit code 1 for a user abort, a validation
  failure or a backend failure. Here the record holds the current qualifier and
  \<^verbatim>\<open>--force-change\<close> is not given: the exit code is 1, although no prompt was called
  (no user abort), nothing was printed (no failure reported) and repo_changed, the only
  function called, returned (no backend failure).
\<close>

theorem changed_exit_code_1_counterexample:
  "outcome (run (MetaborgRelengChanged_main (example_world True) example_repo ''.qualifier'' False)
              [''.qualifier'' \<mapsto> example_qualifier]) = Inr 1 \<and>
   \<not> list_ex is_prompt
       (trace (run (MetaborgRelengChanged_main (example_world True) example_repo ''.qualifier'' False)
                 [''.qualifier'' \<mapsto> example_qualifier])) \<and>
   printed (trace (run (MetaborgRelengChanged_main (example_world True) example_repo ''.qualifier'' False)
                     [''.qualifier'' \<mapsto> example_qualifier])) = [] \<and>
   calls (trace (run (MetaborgRelengChanged_main (example_world True) example_repo ''.qualifier'' False)
                   [''.qualifier'' \<mapsto> example_qualifier])) =
     [Call_repo_changed example_repo ''.qualifier''] \<and>
   fst (repo_changed (example_world True) example_repo ''.qualifier''
          [''.qualifier'' \<mapsto> example_qualifier]) = Inr (False, example_qualifier)"
  by (simp add: MetaborgRelengChanged_main_def io_simps example_world_def
      example_repo_changed_def)

text \<open>
  C10. changed: repo_changed is called with the repository and the destination on every
  run, whether \<^verbatim>\<open>--force-change\<close> is set or not, and it is the only function called;
  the outside state a run leaves (with it the persisted qualifier record) is the one
  repo_changed leaves, for both values of the flag. The flag shows only in what is printed
  and in the exit code.
\<close>

theorem changed_side_effect_regardless_of_force:
  "let forced = run (MetaborgRelengChanged_main w r destination True) s;
       unforced = run (MetaborgRelengChanged_main w r destination False) s
   in
   calls (trace forced) = [Call_repo_changed r destination] \<and>
   calls (trace unforced) = [Call_repo_changed r destination] \<and>
   outside forced = snd (repo_changed w r destination s) \<and>
   outside unforced = snd (repo_changed w r destination s)"
proof (cases "fst (repo_changed w r destination s)")
  case (Inl e)
  then show ?thesis
    by (simp add: Changed_raises Let_def trace_def calls_def outside_def)
next
  case (Inr p)
  obtain c q where p: "p = (c, q)" by (cases p)
  from Inr p have returned: "fst (repo_changed w r destination s) = Inr (c, q)" by simp
  show ?thesis
    by (simp add: Changed_run [OF returned] Let_def trace_def calls_def outside_def)
qed

theorem changed_side_effect_regardless_of_force_witness:
  "outcome (run (MetaborgRelengChanged_main (example_world True) example_repo ''.qualifier'' True)
              Map.empty) = Inr 0 \<and>
   outside (run (MetaborgRelengChanged_main (example_world True) example_repo ''.qualifier'' True)
              Map.empty) ''.qualifier'' = Some example_qualifier \<and>
   outside (run (MetaborgRelengChanged_main (example_world True) example_repo ''.qualifier'' False)
              Map.empty) ''.qualifier'' = Some example_qualifier"
  using changed_side_effect_regardless_of_force [where w = "example_world True"
      and r = example_repo and destination = "''.qualifier''" and s = Map.empty]
    Changed_run [where w = "example_world True" and r = example_repo
      and destination = "''.qualifier''" and s = Map.empty and forceChange = True
      and changed = True and q = example_qualifier]
  by (simp add: Let_def outcome_def example_world_def example_repo_changed_def)

subsection \<open>build\<close>

lemma choose_qualifier_run:
  "choose_qualifier w r self (tr, s) =
     (if truthy (qualifier self) then (Inr (qualifier self), (tr, s))
      else if nowQualifier self then
        (case fst (create_now_qualifier w r s) of
           Inl e \<Rightarrow> (Inl e, (tr @ [Call_create_now_qualifier r], snd (create_now_qualifier w r s)))
         | Inr q \<Rightarrow> (Inr (Some q), (tr @ [Call_create_now_qualifier r], snd (create_now_qualifier w r s))))
      else (Inr None, (tr, s)))"
  by (simp add: choose_qualifier_def io_simps split: sum.splits)

lemma printed_append: "printed (xs @ ys) = printed xs @ printed ys"
  by (induction xs rule: printed.induct) simp_all

lemma choose_qualifier_no_print:
  "choose_qualifier w r self (tr, s) = (res, (tr', s')) \<Longrightarrow> printed tr = [] \<Longrightarrow> printed tr' = []"
  by (auto simp add: choose_qualifier_run printed_append split: if_splits sum.splits)

lemma bind_returned:
  "m \<sigma> = (Inr x, \<sigma>') \<Longrightarrow> bind m f \<sigma> = f x \<sigma>'"
  by (simp add: bind_def)

text \<open>The builder passed to \<^verbatim>\<open>builder.build\<close> is the configured one.\<close>

lemma build_call_configured:
  assumes "components \<noteq> []"
    and "fst (RelengBuilder w r (\<not> noDeps self) s) = Inr b0"
    and "choose_qualifier w r self
           ([Call_RelengBuilder r (\<not> noDeps self)], snd (RelengBuilder w r (\<not> noDeps self) s)) =
         (Inr q, (tr, s2))"
  shows "run (MetaborgRelengBuild_main w r self components) s =
         except_RuntimeError
           (bind (call (Call_build (configured self q b0) components)
                    (build w (configured self q b0) components)) (\<lambda>_. ret 0))
           (\<lambda>detail. bind (print detail) (\<lambda>_. ret 1)) (tr, s2)"
  using assms
  by (simp add: MetaborgRelengBuild_main_def run_def bind_call Let_def
      bind_returned [where m = "choose_qualifier w r self", OF assms(3)] configured_def)

lemma Build_raises_RuntimeError:
  assumes "components \<noteq> []"
    and "fst (RelengBuilder w r (\<not> noDeps self) s) = Inr b0"
    and "choose_qualifier w r self
           ([Call_RelengBuilder r (\<not> noDeps self)], snd (RelengBuilder w r (\<not> noDeps self) s)) =
         (Inr q, (tr, s2))"
    and "fst (build w (configured self q b0) components s2) = Inl (RuntimeError msg)"
  shows "run (MetaborgRelengBuild_main w r self components) s =
         (Inr 1, (tr @ [Call_build (configured self q b0) components, Print msg],
                  snd (build w (configured self q b0) components s2)))"
  unfolding build_call_configured [OF assms(1-3)]
  using assms(4)
  by (simp add: except_RuntimeError_def bind_call bind_print ret_apply)

lemma Build_returns:
  assumes "components \<noteq> []"
    and "fst (RelengBuilder w r (\<not> noDeps self) s) = Inr b0"
    and "choose_qualifier w r self
           ([Call_RelengBuilder r (\<not> noDeps self)], snd (RelengBuilder w r (\<not> noDeps self) s)) =
         (Inr q, (tr, s2))"
    and "fst (build w (configured self q b0) components s2) = Inr ()"
  shows "run (MetaborgRelengBuild_main w r self components) s =
         (Inr 0, (tr @ [Call_build (configured self q b0) components],
                  snd (build w (configured self q b0) components s2)))"
  unfolding build_call_configured [OF assms(1-3)]
  using assms(4)
  by (simp add: except_RuntimeError_def bind_call bind_print ret_apply)

lemma calls_append: "calls (xs @ ys) = calls xs @ calls ys"
  by (simp add: calls_def)

lemma handed_qualifiers_append:
  "handed_qualifiers (xs @ ys) = handed_qualifiers xs @ handed_qualifiers ys"
  by (induction xs rule: handed_qualifiers.induct) simp_all

lemma choose_qualifier_no_build:
  "choose_qualifier w r self (tr, s) = (res, (tr', s')) \<Longrightarrow> handed_qualifiers tr = [] \<Longrightarrow>
   handed_qualifiers tr' = []"
  by (auto simp add: choose_qualifier_run handed_qualifiers_append split: if_splits sum.splits)

lemma qualifier_configured: "builder.qualifier (configured self q b) = q"
  by (simp add: configured_def)

lemma Build_trace:
  assumes "components \<noteq> []"
    and "fst (RelengBuilder w r (\<not> noDeps self) s) = Inr b0"
    and "choose_qualifier w r self
           ([Call_RelengBuilder r (\<not> noDeps self)], snd (RelengBuilder w r (\<not> noDeps self) s)) =
         (Inr q, (tr, s2))"
  shows "trace (run (MetaborgRelengBuild_main w r self components) s) =
         tr @ [Call_build (configured self q b0) components] @
         (case fst (build w (configured self q b0) components s2) of
            Inl (RuntimeError detail) \<Rightarrow> [Print detail]
          | Inl (UnboundLocalError n) \<Rightarrow> []
          | Inl (OtherError n) \<Rightarrow> []
          | Inr u \<Rightarrow> [])"
  unfolding build_call_configured [OF assms]
  by (simp add: except_RuntimeError_def bind_call bind_print ret_apply trace_def
      split: sum.splits exn.splits)

lemma Build_handed_qualifier:
  assumes "components \<noteq> []"
    and "fst (RelengBuilder w r (\<not> noDeps self) s) = Inr b0"
    and "choose_qualifier w r self
           ([Call_RelengBuilder r (\<not> noDeps self)], snd (RelengBuilder w r (\<not> noDeps self) s)) =
         (Inr q, (tr, s2))"
  shows "handed_qualifiers (trace (run (MetaborgRelengBuild_main w r self components) s)) = [q]"
proof -
  have "handed_qualifiers tr = []"
    using choose_qualifier_no_build [OF assms(3)] by simp
  then show ?thesis
    by (simp add: Build_trace [OF assms] handed_qualifiers_append qualifier_configured
        split: sum.splits exn.splits)
qed

text \<open>
  C5. build, with at least one component, a builder constructed (\<open>b0\<close>) and a qualifier
  chosen (\<open>q\<close>, leaving the outside state \<open>s2\<close>): if \<^verbatim>\<open>builder.build\<close> raises a
  RuntimeError, the command prints exactly that error's message and returns 1; if
  \<^verbatim>\<open>builder.build\<close> returns, the command returns 0 and prints nothing.
\<close>

theorem build_runtime_error_exit_code:
  assumes "components \<noteq> []"
    and "fst (RelengBuilder w r (\<not> noDeps self) s) = Inr b0"
    and "choose_qualifier w r self
           ([Call_RelengBuilder r (\<not> noDeps self)], snd (RelengBuilder w r (\<not> noDeps self) s)) =
         (Inr q, (tr, s2))"
  shows "let R = run (MetaborgRelengBuild_main w r self components) s;
             b = configured self q b0
         in
         (fst (build w b components s2) = Inl (RuntimeError msg) \<longrightarrow>
            outcome R = Inr 1 \<and> printed (trace R) = [msg] \<and>
            last (calls (trace R)) = Call_build b components) \<and>
         (fst (build w b components s2) = Inr () \<longrightarrow>
            outcome R = Inr 0 \<and> printed (trace R) = [] \<and>
            last (calls (trace R)) = Call_build b components)"
proof -
  have quiet: "printed tr = []"
    using choose_qualifier_no_print [OF assms(3)] by simp
  have raised: "fst (build w (configured self q b0) components s2) = Inl (RuntimeError msg) \<longrightarrow>
      outcome (run (MetaborgRelengBuild_main w r self components) s) = Inr 1 \<and>
      printed (trace (run (MetaborgRelengBuild_main w r self components) s)) = [msg] \<and>
      last (calls (trace (run (MetaborgRelengBuild_main w r self components) s))) =
        Call_build (configured self q b0) components"
    using quiet
    by (simp add: Build_raises_RuntimeError [OF assms] outcome_def trace_def printed_append
        calls_append calls_def)
  have returned: "fst (build w (configured self q b0) components s2) = Inr () \<longrightarrow>
      outcome (run (MetaborgRelengBuild_main w r self components) s) = Inr 0 \<and>
      printed (trace (run (MetaborgRelengBuild_main w r self components) s)) = [] \<and>
      last (calls (trace (run (MetaborgRelengBuild_main w r self components) s))) =
        Call_build (configured self q b0) components"
    using quiet
    by (simp add: Build_returns [OF assms] outcome_def trace_def printed_append
        calls_append calls_def)
  from raised returned show ?thesis by (simp add: Let_def)
qed

theorem build_runtime_error_exit_code_witness:
  "outcome (run (MetaborgRelengBuild_main (failing_build_world ''Maven build failed'') example_repo
                   (default_switches\<lparr>nowQualifier := True\<rparr>) [''java'']) Map.empty) = Inr 1 \<and>
   printed (trace (run (MetaborgRelengBuild_main (failing_build_world ''Maven build failed'')
                   example_repo (default_switches\<lparr>nowQualifier := True\<rparr>) [''java''])
                   Map.empty)) = [''Maven build failed''] \<and>
   outcome (run (MetaborgRelengBuild_main (example_world True) example_repo
                   (default_switches\<lparr>nowQualifier := True\<rparr>) [''java'']) Map.empty) = Inr 0 \<and>
   printed (trace (run (MetaborgRelengBuild_main (example_world True) example_repo
                   (default_switches\<lparr>nowQualifier := True\<rparr>) [''java'']) Map.empty)) = []"
proof -
  let ?self = "default_switches\<lparr>nowQualifier := True\<rparr>"
  let ?q = "Some ''master-20230104-093000''"
  let ?tr = "[Call_RelengBuilder example_repo True, Call_create_now_qualifier example_repo]"
  have failing: "let R = run (MetaborgRelengBuild_main (failing_build_world ''Maven build failed'')
                            example_repo ?self [''java'']) Map.empty;
             b = configured ?self ?q example_builder
         in
         (fst (build (failing_build_world ''Maven build failed'') b [''java''] Map.empty) =
            Inl (RuntimeError ''Maven build failed'') \<longrightarrow>
            outcome R = Inr 1 \<and> printed (trace R) = [''Maven build failed''] \<and>
            last (calls (trace R)) = Call_build b [''java'']) \<and>
         (fst (build (failing_build_world ''Maven build failed'') b [''java''] Map.empty) = Inr () \<longrightarrow>
            outcome R = Inr 0 \<and> printed (trace R) = [] \<and>
            last (calls (trace R)) = Call_build b [''java''])"
    by (rule build_runtime_error_exit_code [where tr = ?tr])
      (simp_all add: choose_qualifier_run failing_build_world_def example_world_def
        default_switches_def)
  have passing: "let R = run (MetaborgRelengBuild_main (example_world True)
                            example_repo ?self [''java'']) Map.empty;
             b = configured ?self ?q example_builder
         in
         (fst (build (example_world True) b [''java''] Map.empty) =
            Inl (RuntimeError ''Maven build failed'') \<longrightarrow>
            outcome R = Inr 1 \<and> printed (trace R) = [''Maven build failed''] \<and>
            last (calls (trace R)) = Call_build b [''java'']) \<and>
         (fst (build (example_world True) b [''java''] Map.empty) = Inr () \<longrightarrow>
            outcome R = Inr 0 \<and> printed (trace R) = [] \<and>
            last (calls (trace R)) = Call_build b [''java''])"
    by (rule build_runtime_error_exit_code [where tr = ?tr])
      (simp_all add: choose_qualifier_run example_world_def default_switches_def)
  have raises: "fst (build (failing_build_world ''Maven build failed'') b [''java''] Map.empty) =
      Inl (RuntimeError ''Maven build failed'')" for b
    by (simp add: failing_build_world_def)
  have returns: "fst (build (example_world True) b [''java''] Map.empty) = Inr ()" for b
    by (simp add: example_world_def)
  from failing passing raises returns show ?thesis
    by (simp add: Let_def)
qed

text \<open>
  C6. build with no component argument: the command prints the notice and the list of the
  builder's targets and returns 1. The constructor of the builder is the only function
  called, so \<^verbatim>\<open>builder.build\<close> is never called, and the outside state is the one the
  constructor leaves.
\<close>

theorem build_without_components:
  "let R = run (MetaborgRelengBuild_main w r self []) s in
   calls (trace R) = [Call_RelengBuilder r (\<not> noDeps self)] \<and>
   outside R = snd (RelengBuilder w r (\<not> noDeps self) s) \<and>
   (fst (RelengBuilder w r (\<not> noDeps self) s) = Inr b0 \<longrightarrow>
      outcome R = Inr 1 \<and>
      printed (trace R) =
        [''No components specified, pass one or more of the following components to build:'',
         join '', '' (targets b0)])"
  by (simp add: MetaborgRelengBuild_main_def Let_def io_simps split: sum.splits)

theorem build_without_components_witness:
  "fst (RelengBuilder (example_world True) example_repo True Map.empty) = Inr example_builder \<and>
   outcome (run (MetaborgRelengBuild_main (example_world True) example_repo default_switches [])
              Map.empty) = Inr 1 \<and>
   printed (trace (run (MetaborgRelengBuild_main (example_world True) example_repo default_switches [])
              Map.empty)) =
     [''No components specified, pass one or more of the following components to build:'',
      ''java, language, eclipse''] \<and>
   calls (trace (run (MetaborgRelengBuild_main (example_world True) example_repo default_switches [])
              Map.empty)) = [Call_RelengBuilder example_repo True]"
proof -
  have constructed:
    "fst (RelengBuilder (example_world True) example_repo True Map.empty) = Inr example_builder"
    by (simp add: example_world_def)
  have deps: "noDeps default_switches = False"
    by (simp add: default_switches_def)
  have listed: "join '', '' (targets example_builder) = ''java, language, eclipse''"
    by (simp add: example_builder_def)
  show ?thesis
    using constructed deps listed
      build_without_components [where w = "example_world True" and r = example_repo
        and self = default_switches and s = Map.empty and ?b0.0 = example_builder]
    by (simp add: Let_def)
qed

text \<open>
  C7, as the code has it. build, with at least one component and a builder constructed:
  when \<^verbatim>\<open>--qualifier\<close> is given with a non-empty string, that string is the qualifier
  of the builder passed to \<^verbatim>\<open>builder.build\<close>, and create_now_qualifier is not called;
  when the switch is absent or its value is the empty string and \<^verbatim>\<open>--now-qualifier\<close>
  is set, it is the result of create_now_qualifier(repo); otherwise it is \<^verbatim>\<open>None\<close>.
\<close>

theorem build_qualifier_choice:
  assumes "components \<noteq> []"
    and "fst (RelengBuilder w r (\<not> noDeps self) s) = Inr b0"
    and "s1 = snd (RelengBuilder w r (\<not> noDeps self) s)"
  shows "let R = run (MetaborgRelengBuild_main w r self components) s in
         (qualifier self = Some q \<and> q \<noteq> [] \<longrightarrow>
            handed_qualifiers (trace R) = [Some q] \<and>
            Call_create_now_qualifier r \<notin> set (trace R)) \<and>
         ((qualifier self = None \<or> qualifier self = Some []) \<and> nowQualifier self \<and>
          fst (create_now_qualifier w r s1) = Inr nq \<longrightarrow>
            handed_qualifiers (trace R) = [Some nq] \<and>
            Call_create_now_qualifier r \<in> set (trace R)) \<and>
         ((qualifier self = None \<or> qualifier self = Some []) \<and> \<not> nowQualifier self \<longrightarrow>
            handed_qualifiers (trace R) = [None] \<and>
            Call_create_now_qualifier r \<notin> set (trace R))"
proof -
  let ?R = "run (MetaborgRelengBuild_main w r self components) s"
  let ?tr0 = "[Call_RelengBuilder r (\<not> noDeps self)]"
  have given: "handed_qualifiers (trace ?R) = [Some q] \<and>
      Call_create_now_qualifier r \<notin> set (trace ?R)"
    if "qualifier self = Some q \<and> q \<noteq> []"
  proof -
    from that have chosen: "choose_qualifier w r self (?tr0, snd (RelengBuilder w r (\<not> noDeps self) s)) =
        (Inr (Some q), (?tr0, snd (RelengBuilder w r (\<not> noDeps self) s)))"
      by (simp add: choose_qualifier_run)
    have handed: "handed_qualifiers (trace ?R) = [Some q]"
      by (rule Build_handed_qualifier [OF assms(1,2) chosen])
    have uncalled: "Call_create_now_qualifier r \<notin> set (trace ?R)"
      by (simp add: Build_trace [OF assms(1,2) chosen] split: sum.splits exn.splits)
    from handed uncalled show ?thesis by blast
  qed
  have now: "handed_qualifiers (trace ?R) = [Some nq] \<and>
      Call_create_now_qualifier r \<in> set (trace ?R)"
    if "(qualifier self = None \<or> qualifier self = Some []) \<and> nowQualifier self \<and>
        fst (create_now_qualifier w r s1) = Inr nq"
  proof -
    from that assms(3)
    have chosen: "choose_qualifier w r self (?tr0, snd (RelengBuilder w r (\<not> noDeps self) s)) =
        (Inr (Some nq), (?tr0 @ [Call_create_now_qualifier r],
                         snd (create_now_qualifier w r s1)))"
      by (auto simp add: choose_qualifier_run)
    have handed: "handed_qualifiers (trace ?R) = [Some nq]"
      by (rule Build_handed_qualifier [OF assms(1,2) chosen])
    have called: "Call_create_now_qualifier r \<in> set (trace ?R)"
      by (simp add: Build_trace [OF assms(1,2) chosen])
    from handed called show ?thesis by blast
  qed
  have neither: "handed_qualifiers (trace ?R) = [None] \<and>
      Call_create_now_qualifier r \<notin> set (trace ?R)"
    if "(qualifier self = None \<or> qualifier self = Some []) \<and> \<not> nowQualifier self"
  proof -
    from that
    have chosen: "choose_qualifier w r self (?tr0, snd (RelengBuilder w r (\<not> noDeps self) s)) =
        (Inr None, (?tr0, snd (RelengBuilder w r (\<not> noDeps self) s)))"
      by (auto simp add: choose_qualifier_run)
    have handed: "handed_qualifiers (trace ?R) = [None]"
      by (rule Build_handed_qualifier [OF assms(1,2) chosen])
    have uncalled: "Call_create_now_qualifier r \<notin> set (trace ?R)"
      by (simp add: Build_trace [OF assms(1,2) chosen] split: sum.splits exn.splits)
    from handed uncalled show ?thesis by blast
  qed
  from given now neither show ?thesis
    unfolding Let_def by blast
qed

theorem build_qualifier_choice_witness:
  "handed_qualifiers (trace (run (MetaborgRelengBuild_main (example_world True) example_repo
       (default_switches\<lparr>qualifier := Some ''nightly''\<rparr>) [''java'']) Map.empty)) =
     [Some ''nightly''] \<and>
   fst (create_now_qualifier (example_world True) example_repo Map.empty) =
     Inr ''master-20230104-093000'' \<and>
   handed_qualifiers (trace (run (MetaborgRelengBuild_main (example_world True) example_repo
       (default_switches\<lparr>nowQualifier := True\<rparr>) [''java'']) Map.empty)) =
     [Some ''master-20230104-093000''] \<and>
   handed_qualifiers (trace (run (MetaborgRelengBuild_main (example_world True) example_repo
       default_switches [''java'']) Map.empty)) = [None] \<and>
   handed_qualifiers (trace (run (MetaborgRelengBuild_main (example_world True) example_repo
       (default_switches\<lparr>qualifier := Some []\<rparr>) [''java'']) Map.empty)) = [None]"
proof -
  have constructed: "fst (RelengBuilder (example_world True) example_repo b Map.empty) =
      Inr example_builder" for b
    by (simp add: example_world_def)
  have state: "Map.empty = snd (RelengBuilder (example_world True) example_repo b Map.empty)" for b
    by (simp add: example_world_def)
  have now: "fst (create_now_qualifier (example_world True) example_repo Map.empty) =
     Inr ''master-20230104-093000''"
    by (simp add: example_world_def)
  note inst = build_qualifier_choice [where w = "example_world True" and r = example_repo
      and components = "[''java'']" and s = Map.empty and ?s1.0 = Map.empty
      and ?b0.0 = example_builder, OF _ constructed state]
  show ?thesis
    using now
      inst [where self = "default_switches\<lparr>qualifier := Some ''nightly''\<rparr>"
        and q = "''nightly''"]
      inst [where self = "default_switches\<lparr>nowQualifier := True\<rparr>"
        and nq = "''master-20230104-093000''"]
      inst [where self = default_switches]
      inst [where self = "default_switches\<lparr>qualifier := Some []\<rparr>"]
    by (simp add: Let_def default_switches_def)
qed

text \<open>
  C7, as stated, fails: with \<^verbatim>\<open>--qualifier\<close> given as the empty string (and
  \<^verbatim>\<open>--now-qualifier\<close> absent, as the two switches exclude each other) the test
  \<^verbatim>\<open>if self.qualifier:\<close> is false, and the builder gets the qualifier \<^verbatim>\<open>None\<close>, not
  the string given.
\<close>

theorem build_empty_qualifier_counterexample:
  "qualifier (default_switches\<lparr>qualifier := Some []\<rparr>) = Some [] \<and>
   handed_qualifiers (trace (run (MetaborgRelengBuild_main (example_world True) example_repo
       (default_switches\<lparr>qualifier := Some []\<rparr>) [''java'']) Map.empty)) = [None] \<and>
   handed_qualifiers (trace (run (MetaborgRelengBuild_main (example_world True) example_repo
       (default_switches\<lparr>qualifier := Some []\<rparr>) [''java'']) Map.empty)) \<noteq>
     [qualifier (default_switches\<lparr>qualifier := Some []\<rparr>)]"
  by (simp add: MetaborgRelengBuild_main_def choose_qualifier_def except_RuntimeError_def
      Let_def io_simps example_world_def default_switches_def)

end
